theory Spec2Isabelle
  imports Complex_Main "HOL-Library.Monad_Syntax"
begin

section \<open>Python strings and slices\<close>

text \<open>
  Text is a list of characters, each standing for one code point below 256.
  \<open>is_space\<close> is Python's \<^verbatim>\<open>str.isspace\<close> on that range: the code points
  9 to 13, 28 to 32, 133 and 160.
\<close>

definition is_space :: "char \<Rightarrow> bool" where
  "is_space c = (of_char c \<in> {9, 10, 11, 12, 13, 28, 29, 30, 31, 32, 133, 160 :: nat})"

text \<open>
  \<^verbatim>\<open>text.split()\<close> with no argument: the maximal runs of non-whitespace characters, in
  order; \<open>cur\<close> is the word being read.
\<close>

fun split_acc :: "string \<Rightarrow> string \<Rightarrow> string list" where
  "split_acc [] cur = (if cur = [] then [] else [cur])"
| "split_acc (c # cs) cur =
     (if is_space c then (if cur = [] then split_acc cs [] else cur # split_acc cs [])
      else split_acc cs (cur @ [c]))"

definition str_split :: "string \<Rightarrow> string list" where
  "str_split text = split_acc text []"

text \<open>\<^verbatim>\<open>sep.join(xs)\<close>.\<close>

fun str_join :: "string \<Rightarrow> string list \<Rightarrow> string" where
  "str_join sep [] = []"
| "str_join sep [w] = w"
| "str_join sep (w # v # ws) = w @ sep @ str_join sep (v # ws)"

text \<open>\<^verbatim>\<open>text.strip()\<close>: whitespace removed at both ends.\<close>

definition str_strip :: "string \<Rightarrow> string" where
  "str_strip text = rev (dropWhile is_space (rev (dropWhile is_space text)))"

text \<open>
  A slice \<^verbatim>\<open>xs[i:j]\<close>: a negative bound counts from the end, and both bounds are
  clipped to the list.
\<close>

definition py_index :: "nat \<Rightarrow> int \<Rightarrow> nat" where
  "py_index n i = (if i < 0 then nat (max (i + int n) 0) else min (nat i) n)"

definition py_slice :: "'a list \<Rightarrow> int \<Rightarrow> int \<Rightarrow> 'a list" where
  "py_slice xs i j =
     (let lo = py_index (length xs) i; hi = py_index (length xs) j
      in take (hi - lo) (drop lo xs))"

section \<open>The chunker (app/services/chunker.py)\<close>

text \<open>
  The \<^verbatim>\<open>while start < len(words)\<close> loop of \<^verbatim>\<open>chunk_text\<close>. Nothing in the source bounds
  the number of iterations, so the loop is a partial function: \<open>None\<close> is a run that
  never returns. The parameter \<^verbatim>\<open>size\<close> is written \<open>sz\<close>.
\<close>

partial_function (option) chunk_loop ::
  "string list \<Rightarrow> int \<Rightarrow> int \<Rightarrow> int \<Rightarrow> string list \<Rightarrow> string list option" where
  "chunk_loop words sz overlap start chunks =
     (if start < int (length words)
      then (let stop = min (start + sz) (int (length words));
                chunk = py_slice words start stop
            in chunk_loop words sz overlap (start + (sz - overlap))
                 (chunks @ [str_join '' '' chunk]))
      else Some chunks)"

declare chunk_loop.simps [code]

definition chunk_text :: "string \<Rightarrow> int \<Rightarrow> int \<Rightarrow> string list option" where
  "chunk_text text sz overlap =
     (let words = str_split text
      in if words = [] then Some [] else chunk_loop words sz overlap 0 [])"

section \<open>Exceptions\<close>

text \<open>
  The exceptions that the modelled code raises itself or receives from the libraries
  it calls. \<open>HTTPException\<close> carries the status code and the detail string,
  \<open>Exception\<close> its message; \<open>RemoteError\<close> stands for any failure of a call to an
  external service.
\<close>

datatype exc =
    HTTPException int string
  | ValueError
  | AssertionError
  | IndexError
  | KeyError string
  | FileNotFoundError string
  | JSONDecodeError
  | RuntimeError
  | Exception string
  | RemoteError string

text \<open>\<^verbatim>\<open>str(n)\<close> for an integer: its decimal digits, with a minus sign when negative.\<close>

definition digit_char :: "nat \<Rightarrow> char" where
  "digit_char n = ''0123456789'' ! (n mod 10)"

function str_nat :: "nat \<Rightarrow> string" where
  "str_nat n = (if n < 10 then [digit_char n] else str_nat (n div 10) @ [digit_char n])"
  by pat_completeness auto
termination
  by (relation "measure (\<lambda>n. n)") auto

declare str_nat.simps [simp del]

definition str_int :: "int \<Rightarrow> string" where
  "str_int i = (if i < 0 then ''-'' @ str_nat (nat (- i)) else str_nat (nat i))"

section \<open>The libraries under the Local Flat Index\<close>

text \<open>
  Vectors are lists of numbers. The 32-bit floating-point numbers of numpy and faiss
  are idealised as reals: rounding, infinities and NaN are outside this model, and no
  statement below depends on the value of a score.
\<close>

type_synonym vec = "real list"

text \<open>
  \<^verbatim>\<open>np.array(rows, dtype=np.float32)\<close> on a list of lists of numbers: the empty list
  gives a one-dimensional array of shape \<open>(0,)\<close>, rows of one common length \<open>m\<close> give
  a two-dimensional array of shape \<open>(n, m)\<close>, and rows of different lengths raise
  \<open>ValueError\<close>.
\<close>

datatype ndarray = Array1 | Array2 nat nat "vec list"

definition np_array :: "vec list \<Rightarrow> exc + ndarray" where
  "np_array rows =
     (case rows of
        [] \<Rightarrow> Inr Array1
      | r # rs \<Rightarrow>
          if list_all (\<lambda>x. length x = length r) rs
          then Inr (Array2 (length rows) (length r) rows)
          else Inl ValueError)"

text \<open>
  \<^verbatim>\<open>faiss.normalize_L2(x)\<close> reads \<^verbatim>\<open>x.shape[1]\<close>, which raises \<open>IndexError\<close> on a
  one-dimensional array, and scales every row of non-zero norm to norm one.
\<close>

definition renorm_L2 :: "vec \<Rightarrow> vec" where
  "renorm_L2 v =
     (let nr = sum_list (map (\<lambda>x. x * x) v)
      in if nr > 0 then map (\<lambda>x. x * (1 / sqrt nr)) v else v)"

definition normalize_L2 :: "ndarray \<Rightarrow> exc + ndarray" where
  "normalize_L2 x =
     (case x of
        Array1 \<Rightarrow> Inl IndexError
      | Array2 n m rows \<Rightarrow> Inr (Array2 n m (map renorm_L2 rows)))"

text \<open>
  \<^verbatim>\<open>faiss.IndexFlatIP\<close>: the dimension \<open>d\<close> and the stored rows \<open>xb\<close>, in insertion
  order; the position of a row is its label.
\<close>

record faiss_index =
  d :: nat
  xb :: "vec list"

definition IndexFlatIP :: "nat \<Rightarrow> faiss_index" where
  "IndexFlatIP dimension = \<lparr>d = dimension, xb = []\<rparr>"

definition ntotal :: "faiss_index \<Rightarrow> nat" where
  "ntotal ix = length (xb ix)"

text \<open>
  \<^verbatim>\<open>index.add(x)\<close>: the wrapper unpacks \<^verbatim>\<open>n, d = x.shape\<close> (a \<open>ValueError\<close> on a
  one-dimensional array), asserts \<^verbatim>\<open>d == self.d\<close> and appends the rows.
\<close>

definition index_add :: "faiss_index \<Rightarrow> ndarray \<Rightarrow> exc + faiss_index" where
  "index_add ix x =
     (case x of
        Array1 \<Rightarrow> Inl ValueError
      | Array2 n m rows \<Rightarrow>
          if m = d ix then Inr (ix\<lparr>xb := xb ix @ rows\<rparr>) else Inl AssertionError)"

text \<open>
  \<^verbatim>\<open>index.search(x, k)\<close>: the wrapper unpacks the shape, asserts \<^verbatim>\<open>d == self.d\<close> and
  \<^verbatim>\<open>k > 0\<close>, and hands every query row to the library's search routine. That routine
  is a parameter \<open>knn\<close> here: for an index, a count \<open>k\<close> and a query row it gives the
  pairs of score and label that the library returns, the label \<open>-1\<close> standing for
  "no result". Its scores have a type of their own, so that nothing is said about
  their arithmetic.
\<close>

type_synonym 's knn = "faiss_index \<Rightarrow> nat \<Rightarrow> vec \<Rightarrow> ('s \<times> int) list"

definition index_search ::
  "'s knn \<Rightarrow> faiss_index \<Rightarrow> ndarray \<Rightarrow> int \<Rightarrow> exc + ('s \<times> int) list list" where
  "index_search knn ix x k =
     (case x of
        Array1 \<Rightarrow> Inl ValueError
      | Array2 n m rows \<Rightarrow>
          if m \<noteq> d ix then Inl AssertionError
          else if k \<le> 0 then Inl AssertionError
          else Inr (map (knn ix (nat k)) rows))"

text \<open>
  A search routine to instantiate \<open>knn\<close> with: exact inner-product search over the
  reals, the \<open>k\<close> best rows by decreasing score, filled up with the label \<open>-1\<close> when
  the index holds fewer than \<open>k\<close> rows. It stands for one behaviour that a search
  may have, not for the library's rounding or its order among equal scores.
\<close>

definition inner_product :: "vec \<Rightarrow> vec \<Rightarrow> real" where
  "inner_product u v = sum_list (map2 (*) u v)"

definition flat_search :: "real knn" where
  "flat_search ix k q =
     (let scored = zip (map (inner_product q) (xb ix)) (map int [0..<ntotal ix]);
          best = take k (sort_key (\<lambda>p. - fst p) scored)
      in best @ replicate (k - length best) (0, - 1))"

section \<open>The Local Flat Index (FAISSClient, app/services/vector_search.py)\<close>

text \<open>
  The file system as the client sees it. For every file name it says what each of
  the three readers gets from the file of that name: nothing when there is no such
  file, the exception that reading raises, or the content read. A JSON file that
  can be read is taken to hold a dictionary of the value type the client writes.
  Writing a file is taken to succeed.
\<close>

record 'm fs =
  faiss_files :: "string \<rightharpoonup> exc + faiss_index"
  metadata_files :: "string \<rightharpoonup> exc + (string \<rightharpoonup> 'm)"
  id_mapping_files :: "string \<rightharpoonup> exc + (string \<rightharpoonup> string)"

text \<open>\<^verbatim>\<open>os.path.exists(index_file)\<close>, \<^verbatim>\<open>faiss.read_index\<close>, and \<^verbatim>\<open>open\<close> with \<^verbatim>\<open>json.load\<close>.\<close>

definition path_exists :: "'m fs \<Rightarrow> string \<Rightarrow> bool" where
  "path_exists files name = (faiss_files files name \<noteq> None)"

definition read_index :: "'m fs \<Rightarrow> string \<Rightarrow> exc + faiss_index" where
  "read_index files name =
     (case faiss_files files name of None \<Rightarrow> Inl RuntimeError | Some r \<Rightarrow> r)"

definition load_metadata :: "'m fs \<Rightarrow> string \<Rightarrow> exc + (string \<rightharpoonup> 'm)" where
  "load_metadata files name =
     (case metadata_files files name of None \<Rightarrow> Inl (FileNotFoundError name) | Some r \<Rightarrow> r)"

definition load_id_mapping :: "'m fs \<Rightarrow> string \<Rightarrow> exc + (string \<rightharpoonup> string)" where
  "load_id_mapping files name =
     (case id_mapping_files files name of None \<Rightarrow> Inl (FileNotFoundError name) | Some r \<Rightarrow> r)"

record 'm FAISSClient =
  index_name :: string
  dimension :: nat
  index_file :: string
  metadata_file :: string
  id_mapping_file :: string
  index :: faiss_index
  metadata :: "string \<rightharpoonup> 'm"
  id_mapping :: "string \<rightharpoonup> string"

text \<open>\<^verbatim>\<open>FAISSClient.__init__\<close>: load the three artifacts when the index file exists.\<close>

definition FAISSClient_init :: "'m fs \<Rightarrow> string \<Rightarrow> nat \<Rightarrow> exc + 'm FAISSClient" where
  "FAISSClient_init files name dimn =
     (let ifile = name @ ''.faiss'';
          mfile = name @ ''_metadata.json'';
          idfile = name @ ''_id_mapping.json''
      in if path_exists files ifile
         then (case read_index files ifile of
                 Inl e \<Rightarrow> Inl e
               | Inr ix \<Rightarrow>
                   (case load_metadata files mfile of
                      Inl e \<Rightarrow> Inl e
                    | Inr md \<Rightarrow>
                        (case load_id_mapping files idfile of
                           Inl e \<Rightarrow> Inl e
                         | Inr im \<Rightarrow>
                             Inr \<lparr>index_name = name, dimension = dimn, index_file = ifile,
                                  metadata_file = mfile, id_mapping_file = idfile,
                                  index = ix, metadata = md, id_mapping = im\<rparr>)))
         else Inr \<lparr>index_name = name, dimension = dimn, index_file = ifile,
                   metadata_file = mfile, id_mapping_file = idfile,
                   index = IndexFlatIP dimn, metadata = Map.empty, id_mapping = Map.empty\<rparr>)"

text \<open>
  The \<^verbatim>\<open>for i, (vector_id, embedding, metadata) in enumerate(vectors)\<close> loop of
  \<^verbatim>\<open>upsert\<close>: it writes the metadata and the position-to-id entry of every record
  into the client, before any vector is handed to the index.
\<close>

fun upsert_entries ::
  "'m FAISSClient \<Rightarrow> nat \<Rightarrow> nat \<Rightarrow> (string \<times> vec \<times> 'm) list \<Rightarrow> 'm FAISSClient" where
  "upsert_entries c start_idx i [] = c"
| "upsert_entries c start_idx i ((vector_id, embedding, md) # vectors) =
     upsert_entries
       (c\<lparr>metadata := (metadata c)(vector_id \<mapsto> md),
          id_mapping := (id_mapping c)(str_nat (start_idx + i) \<mapsto> vector_id)\<rparr>)
       start_idx (Suc i) vectors"

text \<open>
  \<^verbatim>\<open>FAISSClient.upsert\<close>. The result is the raised exception, if any, with the client
  and the file system as the call leaves them.
\<close>

definition upsert ::
  "'m FAISSClient \<Rightarrow> 'm fs \<Rightarrow> (string \<times> vec \<times> 'm) list \<Rightarrow>
   (exc + unit) \<times> 'm FAISSClient \<times> 'm fs" where
  "upsert c files vectors =
     (let start_idx = ntotal (index c);
          embeddings = map (\<lambda>v. fst (snd v)) vectors;
          c1 = upsert_entries c start_idx 0 vectors
      in case np_array embeddings of
           Inl e \<Rightarrow> (Inl e, c1, files)
         | Inr embeddings_np \<Rightarrow>
             (case normalize_L2 embeddings_np of
                Inl e \<Rightarrow> (Inl e, c1, files)
              | Inr normalized \<Rightarrow>
                  (case index_add (index c1) normalized of
                     Inl e \<Rightarrow> (Inl e, c1, files)
                   | Inr ix \<Rightarrow>
                       (let c2 = c1\<lparr>index := ix\<rparr>
                        in (Inr (), c2,
                            files\<lparr>faiss_files := (faiss_files files)(index_file c2 \<mapsto> Inr ix),
                                  metadata_files :=
                                    (metadata_files files)(metadata_file c2 \<mapsto> Inr (metadata c2)),
                                  id_mapping_files :=
                                    (id_mapping_files files)
                                      (id_mapping_file c2 \<mapsto> Inr (id_mapping c2))\<rparr>)))))"

record ('m, 's) match =
  match_id :: string
  match_score :: 's
  match_metadata :: "'m option"

text \<open>
  The result loop of \<^verbatim>\<open>query\<close>: it stops at the first label \<open>-1\<close>; the id of a match
  is \<^verbatim>\<open>self.id_mapping.get(str(idx), str(idx))\<close>, and the metadata is attached when it
  is asked for and the id is a key of the metadata dictionary.
\<close>

fun format_matches ::
  "'m FAISSClient \<Rightarrow> bool \<Rightarrow> ('s \<times> int) list \<Rightarrow> ('m, 's) match list" where
  "format_matches c include_metadata [] = []"
| "format_matches c include_metadata ((score, idx) # rest) =
     (if idx = - 1 then []
      else (let faiss_idx = str_int idx;
                original_id = (case id_mapping c faiss_idx of None \<Rightarrow> faiss_idx | Some v \<Rightarrow> v)
            in \<lparr>match_id = original_id, match_score = score,
                 match_metadata =
                   (if include_metadata \<and> metadata c original_id \<noteq> None
                    then metadata c original_id else None)\<rparr>
               # format_matches c include_metadata rest))"

text \<open>\<^verbatim>\<open>FAISSClient.query\<close>, over the search routine \<open>knn\<close>.\<close>

definition query ::
  "'s knn \<Rightarrow> 'm FAISSClient \<Rightarrow> vec \<Rightarrow> int \<Rightarrow> bool \<Rightarrow> exc + ('m, 's) match list" where
  "query knn c embedding top_k include_metadata =
     (if ntotal (index c) = 0 then Inr []
      else (case np_array [embedding] of
              Inl e \<Rightarrow> Inl e
            | Inr query_np \<Rightarrow>
                (case normalize_L2 query_np of
                   Inl e \<Rightarrow> Inl e
                 | Inr normalized \<Rightarrow>
                     (case index_search knn (index c) normalized
                             (min top_k (int (ntotal (index c)))) of
                        Inl e \<Rightarrow> Inl e
                      | Inr rows \<Rightarrow>
                          (case rows of
                             [] \<Rightarrow> Inl IndexError
                           | row # _ \<Rightarrow> Inr (format_matches c include_metadata row))))))"

text \<open>
  The client that the constructor builds when no index file exists: an empty index
  of the given dimension and two empty dictionaries. \<open>no_files\<close> is the empty file
  system.
\<close>

definition fresh_client :: "string \<Rightarrow> nat \<Rightarrow> 'm FAISSClient" where
  "fresh_client name dimn =
     \<lparr>index_name = name, dimension = dimn, index_file = name @ ''.faiss'',
      metadata_file = name @ ''_metadata.json'', id_mapping_file = name @ ''_id_mapping.json'',
      index = IndexFlatIP dimn, metadata = Map.empty, id_mapping = Map.empty\<rparr>"

definition no_files :: "'m fs" where
  "no_files = \<lparr>faiss_files = Map.empty, metadata_files = Map.empty, id_mapping_files = Map.empty\<rparr>"

text \<open>
  A client and a file system to try the operations on: the state after the record
  with id \<open>0\<close>, embedding \<open>(1, 0)\<close> and metadata \<open>first\<close> has been upserted into a
  fresh client of dimension 2.
\<close>

definition example_client :: "string FAISSClient" where
  "example_client =
     \<lparr>index_name = ''policy-index'', dimension = 2, index_file = ''policy-index.faiss'',
      metadata_file = ''policy-index_metadata.json'',
      id_mapping_file = ''policy-index_id_mapping.json'',
      index = \<lparr>d = 2, xb = [[1, 0]]\<rparr>, metadata = [''0'' \<mapsto> ''first''],
      id_mapping = [''0'' \<mapsto> ''0'']\<rparr>"

definition example_files :: "string fs" where
  "example_files =
     \<lparr>faiss_files = [''policy-index.faiss'' \<mapsto> Inr \<lparr>d = 2, xb = [[1, 0]]\<rparr>],
      metadata_files = [''policy-index_metadata.json'' \<mapsto> Inr [''0'' \<mapsto> ''first'']],
      id_mapping_files = [''policy-index_id_mapping.json'' \<mapsto> Inr [''0'' \<mapsto> ''0'']]\<rparr>"

section \<open>The Managed Index (PineconeClient, app/services/vector_search.py)\<close>

text \<open>
  What the service keeps about an index, and the calls of its client library that
  the code uses. The service has a state of a type \<open>'r\<close> of its own; every call may
  fail and the ones that write give a new state.
\<close>

record index_description =
  pc_name :: string
  pc_dimension :: nat
  pc_metric :: string
  pc_cloud :: string
  pc_region :: string

record ('r, 'm, 's) pinecone_api =
  list_indexes :: "'r \<Rightarrow> exc + index_description list"
  create_index :: "'r \<Rightarrow> index_description \<Rightarrow> exc + 'r"
  open_index :: "'r \<Rightarrow> string \<Rightarrow> exc + unit"
  remote_upsert :: "'r \<Rightarrow> string \<Rightarrow> (string \<times> vec \<times> 'm) list \<Rightarrow> exc + 'r"
  remote_query :: "'r \<Rightarrow> string \<Rightarrow> vec \<Rightarrow> int \<Rightarrow> bool \<Rightarrow> exc + ('m, 's) match list"

text \<open>
  Truth of an optional string, as in \<^verbatim>\<open>if not api_key\<close>, and \<^verbatim>\<open>a or b\<close> on two of
  them. The process environment is a map from variable names to values.
\<close>

definition truthy :: "string option \<Rightarrow> bool" where
  "truthy s = (case s of None \<Rightarrow> False | Some v \<Rightarrow> v \<noteq> [])"

definition py_or :: "string option \<Rightarrow> string option \<Rightarrow> string option" where
  "py_or a b = (if truthy a then a else b)"

record PineconeClient =
  pc_api_key :: string
  pc_index_name :: string

text \<open>
  \<^verbatim>\<open>PineconeClient.__init__\<close>. The result is the client or the raised exception, with
  the state of the service after the call. The \<^verbatim>\<open>environment\<close> argument is read and
  not used.
\<close>

definition PineconeClient_init ::
  "('r, 'm, 's) pinecone_api \<Rightarrow> (string \<rightharpoonup> string) \<Rightarrow> 'r \<Rightarrow> string option \<Rightarrow> string \<Rightarrow>
   (exc + PineconeClient) \<times> 'r" where
  "PineconeClient_init api env r api_key name =
     (case py_or api_key (env ''PINECONE_API_KEY'') of
        None \<Rightarrow> (Inl ValueError, r)
      | Some key \<Rightarrow>
          if key = [] then (Inl ValueError, r)
          else (case list_indexes api r of
                  Inl e \<Rightarrow> (Inl e, r)
                | Inr descriptions \<Rightarrow>
                    (let existing_indexes = map pc_name descriptions
                     in case (if name \<notin> set existing_indexes
                              then create_index api r
                                     \<lparr>pc_name = name, pc_dimension = 1536, pc_metric = ''cosine'',
                                      pc_cloud = ''aws'', pc_region = ''us-west-2''\<rparr>
                              else Inr r) of
                          Inl e \<Rightarrow> (Inl e, r)
                        | Inr r1 \<Rightarrow>
                            (case open_index api r1 name of
                               Inl e \<Rightarrow> (Inl e, r1)
                             | Inr u \<Rightarrow> (Inr \<lparr>pc_api_key = key, pc_index_name = name\<rparr>, r1)))))"

text \<open>
  \<^verbatim>\<open>PineconeClient.upsert\<close>: the records go to the service in batches of 100, one call
  after the other; and \<^verbatim>\<open>PineconeClient.query\<close>.
\<close>

function PineconeClient_upsert ::
  "('r, 'm, 's) pinecone_api \<Rightarrow> PineconeClient \<Rightarrow> 'r \<Rightarrow> (string \<times> vec \<times> 'm) list \<Rightarrow>
   (exc + unit) \<times> 'r" where
  "PineconeClient_upsert api c r vectors =
     (if vectors = [] then (Inr (), r)
      else (case remote_upsert api r (pc_index_name c) (take 100 vectors) of
              Inl e \<Rightarrow> (Inl e, r)
            | Inr r1 \<Rightarrow> PineconeClient_upsert api c r1 (drop 100 vectors)))"
  by pat_completeness auto
termination
  by (relation "measure (\<lambda>(api, c, r, vectors). length vectors)") auto

declare PineconeClient_upsert.simps [simp del]

definition PineconeClient_query ::
  "('r, 'm, 's) pinecone_api \<Rightarrow> PineconeClient \<Rightarrow> 'r \<Rightarrow> vec \<Rightarrow> int \<Rightarrow> bool \<Rightarrow>
   exc + ('m, 's) match list" where
  "PineconeClient_query api c r embedding top_k include_metadata =
     remote_query api r (pc_index_name c) embedding top_k include_metadata"

section \<open>The factory (create_vector_client)\<close>

datatype 'm vector_client = Managed PineconeClient | Local "'m FAISSClient"

text \<open>
  \<^verbatim>\<open>create_vector_client\<close>: the Managed Index when its library is present, the key is
  set and the construction succeeds; otherwise (\<open>local\<close>, the rest of the
  function) the Local Flat Index when its library is present, and \<open>RuntimeError\<close>
  when it is not. The two availability flags are the module's
  \<^verbatim>\<open>PINECONE_AVAILABLE\<close> and \<^verbatim>\<open>FAISS_AVAILABLE\<close>.
\<close>

definition create_vector_client ::
  "('r, 'm, 's) pinecone_api \<Rightarrow> (string \<rightharpoonup> string) \<Rightarrow> 'm fs \<Rightarrow> bool \<Rightarrow> bool \<Rightarrow> 'r \<Rightarrow>
   string \<Rightarrow> nat \<Rightarrow> (exc + 'm vector_client) \<times> 'r" where
  "create_vector_client api env files pinecone_available faiss_available r name dimn =
     (let api_key = env ''PINECONE_API_KEY'';
          local = (\<lambda>r1. if faiss_available
                         then (case FAISSClient_init files name dimn of
                                 Inl e \<Rightarrow> (Inl e, r1)
                               | Inr c \<Rightarrow> (Inr (Local c), r1))
                         else (Inl RuntimeError, r1))
      in if pinecone_available \<and> truthy api_key
         then (case PineconeClient_init api env r None name of
                 (Inr c, r1) \<Rightarrow> (Inr (Managed c), r1)
               | (Inl e, r1) \<Rightarrow> local r1)
         else local r)"

text \<open>
  A service to try the factory on: its state is the list of the indexes it holds,
  and no call fails.
\<close>

definition registry_service :: "(index_description list, 'm, 's) pinecone_api" where
  "registry_service =
     \<lparr>list_indexes = (\<lambda>r. Inr r),
      create_index = (\<lambda>r description. Inr (r @ [description])),
      open_index = (\<lambda>r name. Inr ()),
      remote_upsert = (\<lambda>r name vectors. Inr r),
      remote_query = (\<lambda>r name embedding top_k include_metadata. Inr [])\<rparr>"

section \<open>The embedding gateway (app/services/embedding_engine.py)\<close>

text \<open>
  The module's globals and the services behind them. \<open>openai_client\<close> is absent when
  no key is configured; when present it is the call
  \<^verbatim>\<open>embeddings.create(model=..., input=x)\<close>, from a single text or a list of texts to
  the embeddings of \<^verbatim>\<open>response.data\<close>, in the order of the response. \<open>gemini_post\<close>
  and \<open>deepseek_post\<close> are the HTTP requests for one text: the status, the text of
  the response, and the embeddings found in its JSON body, if any. Every service is
  a function of its input. \<open>first_raised\<close> says which of the exceptions of a group
  of concurrently awaited calls reaches the caller.
\<close>

datatype openai_input = Single string | Batch "string list"

record embedding_env =
  openai_client :: "(openai_input \<Rightarrow> exc + vec list) option"
  GEMINI_API_KEY :: "string option"
  DEEPSEEK_API_KEY :: "string option"
  gemini_post :: "string \<Rightarrow> exc + (nat \<times> string \<times> vec option)"
  deepseek_post :: "string \<Rightarrow> exc + (nat \<times> string \<times> vec list option)"
  first_raised :: "exc list \<Rightarrow> exc"

text \<open>\<^verbatim>\<open>_get_gemini_embedding\<close> and \<^verbatim>\<open>_get_deepseek_embedding\<close>.\<close>

definition get_gemini_embedding :: "embedding_env \<Rightarrow> string \<Rightarrow> exc + vec" where
  "get_gemini_embedding env text =
     (case gemini_post env text of
        Inl e \<Rightarrow> Inl e
      | Inr (status, error_text, values) \<Rightarrow>
          if status \<noteq> 200
          then Inl (Exception (''Gemini Embedding API error '' @ str_nat status @ '': '' @ error_text))
          else (case values of None \<Rightarrow> Inl (KeyError ''embedding'') | Some v \<Rightarrow> Inr v))"

definition get_deepseek_embedding :: "embedding_env \<Rightarrow> string \<Rightarrow> exc + vec" where
  "get_deepseek_embedding env text =
     (case deepseek_post env text of
        Inl e \<Rightarrow> Inl e
      | Inr (status, error_text, data) \<Rightarrow>
          if status \<noteq> 200
          then Inl (Exception (''DeepSeek API error '' @ str_nat status @ '': '' @ error_text))
          else (case data of
                  None \<Rightarrow> Inl (KeyError ''data'')
                | Some [] \<Rightarrow> Inl IndexError
                | Some (v # rest) \<Rightarrow> Inr v))"

text \<open>
  \<^verbatim>\<open>get_embedding\<close>. The first branch is taken when the provider is \<open>openai\<close>
  and the client is present.
\<close>

definition get_embedding :: "embedding_env \<Rightarrow> string \<Rightarrow> string \<Rightarrow> exc + vec" where
  "get_embedding env text provider =
     (case (if provider = ''openai'' then openai_client env else None) of
        Some create \<Rightarrow>
          (case create (Single text) of
             Inl e \<Rightarrow> Inl e
           | Inr [] \<Rightarrow> Inl IndexError
           | Inr (v # rest) \<Rightarrow> Inr v)
      | None \<Rightarrow>
          if provider = ''gemini'' \<and> truthy (GEMINI_API_KEY env)
          then get_gemini_embedding env text
          else if provider = ''deepseek'' \<and> truthy (DEEPSEEK_API_KEY env)
          then get_deepseek_embedding env text
          else Inl ValueError)"

text \<open>
  \<^verbatim>\<open>asyncio.gather(*tasks)\<close>: the results in the order of the tasks when every task
  returns, and otherwise one of the raised exceptions.
\<close>

definition gather :: "(exc list \<Rightarrow> exc) \<Rightarrow> (exc + 'a) list \<Rightarrow> exc + 'a list" where
  "gather first results =
     (if list_all (\<lambda>r. \<not> isl r) results then Inr (map projr results)
      else Inl (first (map projl (filter isl results))))"

text \<open>\<^verbatim>\<open>get_embeddings_batch\<close>.\<close>

definition get_embeddings_batch :: "embedding_env \<Rightarrow> string list \<Rightarrow> string \<Rightarrow> exc + vec list" where
  "get_embeddings_batch env texts provider =
     (case (if provider = ''openai'' then openai_client env else None) of
        Some create \<Rightarrow> create (Batch texts)
      | None \<Rightarrow>
          gather (first_raised env) (map (\<lambda>text. get_embedding env text provider) texts))"


definition example_env :: embedding_env where
  "example_env =
     \<lparr>openai_client = None, GEMINI_API_KEY = Some ''k'', DEEPSEEK_API_KEY = None,
      gemini_post = (\<lambda>text. if text = ''bad'' then Inr (500, ''down'', None)
                             else Inr (200, [], Some [real (length text), 0])),
      deepseek_post = (\<lambda>text. Inl (RemoteError ''unreachable'')),
      first_raised = hd\<rparr>"

section \<open>The request handler (run_query, app/api/endpoints.py)\<close>

text \<open>
  The settings read by the handler, the request and the response, and the
  collaborators outside the retrieval core: the path of a parsed URL, the text
  extraction, the two functions of \<^verbatim>\<open>llm_service.py\<close> that call the generation
  service, and \<^verbatim>\<open>str(e)\<close> of an exception.
\<close>

record settings =
  VECTOR_INDEX_NAME :: string
  EMBEDDING_DIMENSION :: nat
  TOP_K_RESULTS :: int
  DEFAULT_EMBEDDING_PROVIDER :: string
  DEFAULT_LLM_PROVIDER :: string

record QueryRequest =
  documents :: string
  questions :: "string list"

record Clause =
  clause_text :: string
  explanation :: "string option"

record Answer =
  answer :: string
  clauses :: "Clause list"
  decision_rationale :: string

record 's collaborators =
  urlparse_path :: "string \<Rightarrow> string"
  extract_text :: "string \<Rightarrow> string \<Rightarrow> exc + string"
  generate_intelligent_answer :: "string \<Rightarrow> string list \<Rightarrow> string \<Rightarrow> exc + (string \<times> string)"
  create_clause_explanations :: "string list \<Rightarrow> 's list \<Rightarrow> string \<Rightarrow> exc + Clause list"
  exc_str :: "exc \<Rightarrow> string"

text \<open>
  \<^verbatim>\<open>s.lower()\<close> on code points below 256 (the capital letters A to Z and the
  capital letters of Latin-1), and \<^verbatim>\<open>s.endswith(suffix)\<close>.
\<close>

definition char_lower :: "char \<Rightarrow> char" where
  "char_lower c =
     (let n = (of_char c :: nat)
      in if (65 \<le> n \<and> n \<le> 90) \<or> (192 \<le> n \<and> n \<le> 222 \<and> n \<noteq> 215)
         then char_of (n + 32) else c)"

definition str_lower :: "string \<Rightarrow> string" where
  "str_lower s = map char_lower s"

definition str_endswith :: "string \<Rightarrow> string \<Rightarrow> bool" where
  "str_endswith s suffix =
     (length suffix \<le> length s \<and> drop (length s - length suffix) s = suffix)"

text \<open>
  The list \<^verbatim>\<open>vectors_to_upsert\<close>: the \<open>idx\<close>-th embedding with the id \<^verbatim>\<open>str(idx)\<close> and
  the \<open>idx\<close>-th chunk as metadata; \<^verbatim>\<open>chunks[idx]\<close> raises \<open>IndexError\<close> out of range.
\<close>

fun vectors_to_upsert ::
  "string list \<Rightarrow> nat \<Rightarrow> vec list \<Rightarrow> exc + (string \<times> vec \<times> (string \<rightharpoonup> string)) list" where
  "vectors_to_upsert chunks idx [] = Inr []"
| "vectors_to_upsert chunks idx (emb # embs) =
     (if idx < length chunks
      then (case vectors_to_upsert chunks (Suc idx) embs of
              Inl e \<Rightarrow> Inl e
            | Inr vs \<Rightarrow> Inr ((str_nat idx, emb, [''text'' \<mapsto> chunks ! idx]) # vs))
      else Inl IndexError)"

text \<open>The calls \<^verbatim>\<open>vector_client.upsert\<close> and \<^verbatim>\<open>vector_client.query\<close> on either client.\<close>

definition client_upsert ::
  "('r, string \<rightharpoonup> string, 's) pinecone_api \<Rightarrow> (string \<rightharpoonup> string) vector_client \<Rightarrow> 'r \<Rightarrow>
   (string \<rightharpoonup> string) fs \<Rightarrow> (string \<times> vec \<times> (string \<rightharpoonup> string)) list \<Rightarrow>
   (exc + unit) \<times> (string \<rightharpoonup> string) vector_client \<times> 'r \<times> (string \<rightharpoonup> string) fs" where
  "client_upsert api client r files vectors =
     (case client of
        Managed c \<Rightarrow>
          (case PineconeClient_upsert api c r vectors of (res, r1) \<Rightarrow> (res, client, r1, files))
      | Local c \<Rightarrow>
          (case upsert c files vectors of (res, c1, files1) \<Rightarrow> (res, Local c1, r, files1)))"

definition client_query ::
  "('r, string \<rightharpoonup> string, 's) pinecone_api \<Rightarrow> 's knn \<Rightarrow> (string \<rightharpoonup> string) vector_client \<Rightarrow> 'r \<Rightarrow>
   vec \<Rightarrow> int \<Rightarrow> exc + (string \<rightharpoonup> string, 's) match list" where
  "client_query api knn client r embedding top_k =
     (case client of
        Managed c \<Rightarrow> PineconeClient_query api c r embedding top_k True
      | Local c \<Rightarrow> query knn c embedding top_k True)"

text \<open>
  \<^verbatim>\<open>match['metadata']['text']\<close>, and a list comprehension over calls that may raise:
  the first exception ends it.
\<close>

definition match_text :: "(string \<rightharpoonup> string, 's) match \<Rightarrow> exc + string" where
  "match_text m =
     (case match_metadata m of
        None \<Rightarrow> Inl (KeyError ''metadata'')
      | Some md \<Rightarrow> (case md ''text'' of None \<Rightarrow> Inl (KeyError ''text'') | Some t \<Rightarrow> Inr t))"

fun collect :: "(exc + 'a) list \<Rightarrow> exc + 'a list" where
  "collect [] = Inr []"
| "collect (Inl e # rest) = Inl e"
| "collect (Inr x # rest) = (case collect rest of Inl e \<Rightarrow> Inl e | Inr xs \<Rightarrow> Inr (x # xs))"

text \<open>One round of the \<^verbatim>\<open>for question in payload.questions\<close> loop, and the loop.\<close>

definition answer_question ::
  "'s collaborators \<Rightarrow> embedding_env \<Rightarrow> ('r, string \<rightharpoonup> string, 's) pinecone_api \<Rightarrow> 's knn \<Rightarrow>
   settings \<Rightarrow> (string \<rightharpoonup> string) vector_client \<Rightarrow> 'r \<Rightarrow> string \<Rightarrow> exc + Answer" where
  "answer_question collab env api knn cfg client r question =
     (case get_embedding env question (DEFAULT_EMBEDDING_PROVIDER cfg) of
        Inl e \<Rightarrow> Inl e
      | Inr query_emb \<Rightarrow>
          (case client_query api knn client r query_emb (TOP_K_RESULTS cfg) of
             Inl e \<Rightarrow> Inl e
           | Inr matches \<Rightarrow>
               (case collect (map match_text matches) of
                  Inl e \<Rightarrow> Inl e
                | Inr relevant_chunks \<Rightarrow>
                    (case generate_intelligent_answer collab question (take 3 relevant_chunks)
                            (DEFAULT_LLM_PROVIDER cfg) of
                       Inl e \<Rightarrow> Inl e
                     | Inr (answer_text, rationale) \<Rightarrow>
                         (case create_clause_explanations collab relevant_chunks
                                 (map match_score matches) question of
                            Inl e \<Rightarrow> Inl e
                          | Inr matched_clauses \<Rightarrow>
                              Inr \<lparr>answer = answer_text, clauses = matched_clauses,
                                   decision_rationale = rationale\<rparr>)))))"

fun answer_questions ::
  "'s collaborators \<Rightarrow> embedding_env \<Rightarrow> ('r, string \<rightharpoonup> string, 's) pinecone_api \<Rightarrow> 's knn \<Rightarrow>
   settings \<Rightarrow> (string \<rightharpoonup> string) vector_client \<Rightarrow> 'r \<Rightarrow> string list \<Rightarrow> exc + Answer list" where
  "answer_questions collab env api knn cfg client r [] = Inr []"
| "answer_questions collab env api knn cfg client r (question # rest) =
     (case answer_question collab env api knn cfg client r question of
        Inl e \<Rightarrow> Inl e
      | Inr a \<Rightarrow>
          (case answer_questions collab env api knn cfg client r rest of
             Inl e \<Rightarrow> Inl e
           | Inr results \<Rightarrow> Inr (a # results)))"

text \<open>
  The body of the \<^verbatim>\<open>try\<close> block of \<^verbatim>\<open>run_query\<close>. The state is the module's
  \<^verbatim>\<open>vector_client\<close> (absent when the factory failed at import), the service behind
  the Managed Index and the file system. \<open>None\<close> is a run that never returns, which
  only the chunker can cause.
\<close>

definition process_request ::
  "'s collaborators \<Rightarrow> embedding_env \<Rightarrow> ('r, string \<rightharpoonup> string, 's) pinecone_api \<Rightarrow> 's knn \<Rightarrow>
   settings \<Rightarrow> (string \<rightharpoonup> string) vector_client option \<Rightarrow> 'r \<Rightarrow> (string \<rightharpoonup> string) fs \<Rightarrow>
   string \<Rightarrow> string \<Rightarrow> string list \<Rightarrow>
   ((exc + Answer list) \<times> (string \<rightharpoonup> string) vector_client option \<times> 'r \<times>
    (string \<rightharpoonup> string) fs) option" where
  "process_request collab env api knn cfg vector_client r files doc_url doc_type qs =
     (case extract_text collab doc_url doc_type of
        Inl e \<Rightarrow> Some (Inl e, vector_client, r, files)
      | Inr text \<Rightarrow>
          if str_strip text = []
          then Some (Inl (HTTPException 422 ''Failed to extract any text from the document.''),
                     vector_client, r, files)
          else (case chunk_text text 300 50 of
                  None \<Rightarrow> None
                | Some chunks \<Rightarrow>
                    if chunks = []
                    then Some (Inl (HTTPException 422
                                      ''No valid chunks generated from document text.''),
                               vector_client, r, files)
                    else (case get_embeddings_batch env chunks (DEFAULT_EMBEDDING_PROVIDER cfg) of
                            Inl e \<Rightarrow> Some (Inl e, vector_client, r, files)
                          | Inr chunk_embeddings \<Rightarrow>
                              (case vector_client of
                                 None \<Rightarrow>
                                   Some (Inl (HTTPException 500 ''Vector database not available''),
                                         vector_client, r, files)
                               | Some client \<Rightarrow>
                                   (case vectors_to_upsert chunks 0 chunk_embeddings of
                                      Inl e \<Rightarrow> Some (Inl e, vector_client, r, files)
                                    | Inr vectors \<Rightarrow>
                                        (case client_upsert api client r files vectors of
                                           (Inl e, client1, r1, files1) \<Rightarrow>
                                             Some (Inl e, Some client1, r1, files1)
                                         | (Inr u, client1, r1, files1) \<Rightarrow>
                                             (case answer_questions collab env api knn cfg
                                                     client1 r1 qs of
                                                Inl e \<Rightarrow> Some (Inl e, Some client1, r1, files1)
                                              | Inr results \<Rightarrow>
                                                  Some (Inr results, Some client1, r1,
                                                        files1))))))))"

text \<open>
  \<^verbatim>\<open>run_query\<close>: the check of the extension, the body, and the
  \<^verbatim>\<open>except Exception\<close> clause around the body, which turns every exception raised
  in it into an \<open>HTTPException\<close> with the status 500.
\<close>

definition run_query ::
  "'s collaborators \<Rightarrow> embedding_env \<Rightarrow> ('r, string \<rightharpoonup> string, 's) pinecone_api \<Rightarrow> 's knn \<Rightarrow>
   settings \<Rightarrow> (string \<rightharpoonup> string) vector_client option \<Rightarrow> 'r \<Rightarrow> (string \<rightharpoonup> string) fs \<Rightarrow>
   QueryRequest \<Rightarrow>
   ((exc + Answer list) \<times> (string \<rightharpoonup> string) vector_client option \<times> 'r \<times>
    (string \<rightharpoonup> string) fs) option" where
  "run_query collab env api knn cfg vector_client r files payload =
     (let doc_url = documents payload;
          file_path = str_lower (urlparse_path collab doc_url)
      in if str_endswith file_path ''.pdf'' \<or> str_endswith file_path ''.docx''
         then (let doc_type = (if str_endswith file_path ''.pdf'' then ''pdf'' else ''docx'')
               in case process_request collab env api knn cfg vector_client r files doc_url
                         doc_type (questions payload) of
                    None \<Rightarrow> None
                  | Some (Inl e, state) \<Rightarrow>
                      Some (Inl (HTTPException 500
                                   (''Failed to process request: '' @ exc_str collab e)), state)
                  | Some (Inr results, state) \<Rightarrow> Some (Inr results, state))
         else Some (Inl (HTTPException 400 ''Only PDF and DOCX URLs are supported.''),
                    vector_client, r, files))"

text \<open>
  Collaborators and settings to try the handler on: every URL has the path
  \<open>/policy.pdf\<close>, the extracted text is three blanks, and the settings are the
  defaults of \<^verbatim>\<open>config.py\<close>.
\<close>

definition example_collaborators :: "real collaborators" where
  "example_collaborators =
     \<lparr>urlparse_path = (\<lambda>url. ''/policy.pdf''),
      extract_text = (\<lambda>url doc_type. Inr ''   ''),
      generate_intelligent_answer = (\<lambda>question chunks provider. Inr ([], [])),
      create_clause_explanations = (\<lambda>chunks scores question. Inr []),
      exc_str = (\<lambda>e. [])\<rparr>"

definition default_settings :: settings where
  "default_settings =
     \<lparr>VECTOR_INDEX_NAME = ''policy-index'', EMBEDDING_DIMENSION = 768, TOP_K_RESULTS = 5,
      DEFAULT_EMBEDDING_PROVIDER = ''gemini'', DEFAULT_LLM_PROVIDER = ''gemini''\<rparr>"

section \<open>Properties of the chunker\<close>

subsection \<open>Words and joins\<close>

lemma split_acc_words:
  "w \<in> set (split_acc s cur) \<Longrightarrow> \<forall>c \<in> set cur. \<not> is_space c \<Longrightarrow>
   w \<noteq> [] \<and> (\<forall>c \<in> set w. \<not> is_space c)"
proof (induction s arbitrary: cur)
  case Nil
  then show ?case by (cases "cur = []") simp_all
next
  case (Cons c cs)
  show ?case
  proof (cases "is_space c")
    case True
    show ?thesis
    proof (cases "cur = []")
      case True
      with \<open>is_space c\<close> Cons.prems(1) have "w \<in> set (split_acc cs [])" by simp
      then show ?thesis by (rule Cons.IH) simp
    next
      case False
      with \<open>is_space c\<close> Cons.prems(1) have "w = cur \<or> w \<in> set (split_acc cs [])" by simp
      then show ?thesis
      proof
        assume "w = cur"
        with False Cons.prems(2) show ?thesis by simp
      next
        assume "w \<in> set (split_acc cs [])"
        then show ?thesis by (rule Cons.IH) simp
      qed
    qed
  next
    case False
    with Cons.prems(1) have "w \<in> set (split_acc cs (cur @ [c]))" by simp
    moreover have "\<forall>d \<in> set (cur @ [c]). \<not> is_space d"
      using False Cons.prems(2) by simp
    ultimately show ?thesis by (rule Cons.IH)
  qed
qed

lemma str_split_words:
  "w \<in> set (str_split s) \<Longrightarrow> w \<noteq> [] \<and> (\<forall>c \<in> set w. \<not> is_space c)"
proof -
  assume "w \<in> set (str_split s)"
  then have "w \<in> set (split_acc s [])" by (simp only: str_split_def)
  moreover have "\<forall>c \<in> set ([] :: string). \<not> is_space c" by simp
  ultimately show ?thesis by (rule split_acc_words)
qed

lemma split_acc_word_prefix:
  "\<forall>c \<in> set w. \<not> is_space c \<Longrightarrow> split_acc (w @ rest) cur = split_acc rest (cur @ w)"
  by (induction w arbitrary: cur) auto

lemma is_space_blank: "is_space CHR '' ''"
  by (simp add: is_space_def)

lemma split_acc_join:
  "\<forall>w \<in> set ws. w \<noteq> [] \<and> (\<forall>c \<in> set w. \<not> is_space c) \<Longrightarrow>
   split_acc (str_join '' '' ws) [] = ws"
proof (induction "'' ''" ws rule: str_join.induct)
  case 1
  show ?case by simp
next
  case (2 w)
  then show ?case
    using split_acc_word_prefix [of w "[]" "[]"] by simp
next
  case (3 w v ws)
  have "split_acc (w @ '' '' @ str_join '' '' (v # ws)) []
        = split_acc ('' '' @ str_join '' '' (v # ws)) w"
    using 3(2) split_acc_word_prefix [of w _ "[]"] by simp
  also have "\<dots> = w # split_acc (str_join '' '' (v # ws)) []"
    using 3(2) by (simp add: is_space_blank)
  also have "\<dots> = w # v # ws"
    using 3 by simp
  finally show ?case by simp
qed

lemma str_split_join_sublist:
  assumes "set ws \<subseteq> set (str_split s)"
  shows "str_split (str_join '' '' ws) = ws"
proof -
  have "\<forall>w \<in> set ws. w \<noteq> [] \<and> (\<forall>c \<in> set w. \<not> is_space c)"
  proof
    fix w assume "w \<in> set ws"
    then have "w \<in> set (str_split s)" using assms by blast
    then show "w \<noteq> [] \<and> (\<forall>c \<in> set w. \<not> is_space c)" by (rule str_split_words)
  qed
  then have "split_acc (str_join '' '' ws) [] = ws" by (rule split_acc_join)
  then show ?thesis by (simp only: str_split_def)
qed

subsection \<open>Slices that stay inside the list\<close>

lemma py_slice_inside:
  "0 \<le> i \<Longrightarrow> i \<le> j \<Longrightarrow> j \<le> int (length xs) \<Longrightarrow>
   py_slice xs i j = take (nat j - nat i) (drop (nat i) xs)"
proof -
  assume a: "0 \<le> i" "i \<le> j" "j \<le> int (length xs)"
  then have "nat i \<le> length xs" and "nat j \<le> length xs" by linarith+
  then have "py_index (length xs) i = nat i" and "py_index (length xs) j = nat j"
    using a by (simp_all add: py_index_def)
  then show ?thesis by (simp add: py_slice_def Let_def)
qed

lemma py_slice_to_end:
  "0 \<le> i \<Longrightarrow> i \<le> int (length xs) \<Longrightarrow> py_slice xs i (int (length xs)) = drop (nat i) xs"
  by (simp add: py_slice_inside)

subsection \<open>Termination and non-termination of the loop\<close>

lemma chunk_loop_terminates:
  "overlap < sz \<Longrightarrow> \<exists>cs. chunk_loop words sz overlap start chunks = Some cs"
proof (induction "nat (int (length words) - start)" arbitrary: start chunks rule: less_induct)
  case less
  show ?case
  proof (cases "start < int (length words)")
    case True
    have "nat (int (length words) - (start + (sz - overlap))) < nat (int (length words) - start)"
      using True less.prems by linarith
    from less.hyps [OF this less.prems] show ?thesis
      using True by (subst chunk_loop.simps) (simp add: Let_def)
  next
    case False
    then show ?thesis by (subst chunk_loop.simps) simp
  qed
qed

lemma chunk_loop_diverges:
  assumes "sz \<le> overlap" and "start < int (length words)"
  shows "chunk_loop words sz overlap start chunks = None"
proof (rule ccontr)
  assume "chunk_loop words sz overlap start chunks \<noteq> None"
  then obtain y where y: "chunk_loop words sz overlap start chunks = Some y" by auto
  have "\<not> (sz \<le> overlap \<and> start < int (length words))"
  proof (rule chunk_loop.raw_induct
      [where P = "\<lambda>ws s ov st cs r. \<not> (s \<le> ov \<and> st < int (length ws))", OF _ y])
    fix f ws s ov st cs r
    assume ih: "\<And>ws s ov st cs r. f ws s ov st cs = Some r \<Longrightarrow>
                  \<not> (s \<le> ov \<and> st < int (length ws))"
      and body: "(if st < int (length ws)
        then let stop = min (st + s) (int (length ws)); chunk = py_slice ws st stop
             in f ws s ov (st + (s - ov)) (cs @ [str_join '' '' chunk])
        else Some cs) = Some r"
    show "\<not> (s \<le> ov \<and> st < int (length ws))"
    proof
      assume a: "s \<le> ov \<and> st < int (length ws)"
      then have b: "st + (s - ov) < int (length ws)" by linarith
      from body a have "f ws s ov (st + (s - ov))
          (cs @ [str_join '' '' (py_slice ws st (min (st + s) (int (length ws))))]) = Some r"
        by (simp add: Let_def)
      from ih [OF this] a b show False by simp
    qed
  qed
  with assms show False by simp
qed

subsection \<open>The two windows of a 500-word text, and the last window\<close>

lemma chunk_loop_500:
  assumes "length words = 500"
  shows "chunk_loop words 300 50 0 [] =
    Some [str_join '' '' (take 300 words), str_join '' '' (drop 250 words)]"
proof -
  have s1: "py_slice words 0 300 = take 300 words"
    using assms py_slice_inside [of 0 300 words] by simp
  have s2: "py_slice words 250 500 = drop 250 words"
    using assms py_slice_to_end [of 250 words] by simp
  have "chunk_loop words 300 50 0 [] = chunk_loop words 300 50 250 [str_join '' '' (take 300 words)]"
    using assms s1 by (subst chunk_loop.simps) (simp add: Let_def)
  also have "\<dots> = chunk_loop words 300 50 500
      [str_join '' '' (take 300 words), str_join '' '' (drop 250 words)]"
    using assms s2 by (subst chunk_loop.simps) (simp add: Let_def)
  also have "\<dots> = Some [str_join '' '' (take 300 words), str_join '' '' (drop 250 words)]"
    using assms by (subst chunk_loop.simps) simp
  finally show ?thesis .
qed

lemma split_acc_replicate:
  "split_acc (concat (replicate n ''w '')) [] = replicate n ''w''"
  by (induction n) (simp_all add: is_space_def)


lemma str_split_replicate: "str_split (concat (replicate n ''w '')) = replicate n ''w''"
  by (simp only: str_split_def split_acc_replicate)

lemma str_split_abc: "str_split ''a b c'' = [''a'', ''b'', ''c'']"
  by (simp add: str_split_def is_space_def)

lemma window_count_gt:
  assumes "0 < (st::nat)" and "j * st < (n::nat)"
  shows "j < (n + st - 1) div st"
proof -
  have "Suc j * st \<le> n + st - 1" using assms by simp
  then have "(Suc j * st) div st \<le> (n + st - 1) div st" by (rule div_le_mono)
  then show ?thesis using assms(1) by simp
qed

lemma window_count_le:
  assumes "0 < (st::nat)" and "\<not> j * st < (n::nat)"
  shows "(n + st - 1) div st \<le> j"
proof -
  have "n + st - 1 < Suc j * st" using assms by simp
  then have "(n + st - 1) div st < Suc j" by (rule less_mult_imp_div_less)
  then show ?thesis by simp
qed

lemma py_slice_window:
  assumes "0 \<le> sz" and "lo < length words"
  shows "py_slice words (int lo) (min (int lo + sz) (int (length words))) =
         take (nat sz) (drop lo words)"
proof -
  let ?stop = "min (int lo + sz) (int (length words))"
  have "py_slice words (int lo) ?stop = take (nat ?stop - nat (int lo)) (drop (nat (int lo)) words)"
    using assms by (intro py_slice_inside) simp_all
  also have "\<dots> = take (min (nat sz) (length words - lo)) (drop lo words)"
  proof -
    have "nat ?stop - nat (int lo) = min (nat sz) (length words - lo)"
      using assms by linarith
    then show ?thesis by simp
  qed
  also have "\<dots> = take (nat sz) (drop lo words)"
    by (simp add: min_def)
  finally show ?thesis .
qed

lemma chunk_loop_windows:
  assumes "0 \<le> overlap" and "overlap < sz"
  shows "chunk_loop words sz overlap (int (j * nat (sz - overlap))) chunks =
     Some (chunks @ map (\<lambda>i. str_join '' '' (take (nat sz) (drop (i * nat (sz - overlap)) words)))
                      [j..<(length words + nat (sz - overlap) - 1) div nat (sz - overlap)])"
proof (induction "length words - j * nat (sz - overlap)" arbitrary: j chunks rule: less_induct)
  case less
  let ?st = "nat (sz - overlap)"
  let ?n = "length words"
  let ?m = "(?n + ?st - 1) div ?st"
  let ?w = "\<lambda>i. str_join '' '' (take (nat sz) (drop (i * ?st) words))"
  have st: "0 < ?st" using assms by simp
  show ?case
  proof (cases "j * ?st < ?n")
    case True
    have jm: "j < ?m" using st True by (rule window_count_gt)
    have next_start: "int (j * ?st) + (sz - overlap) = int (Suc j * ?st)"
      using assms by simp
    have slice: "py_slice words (int (j * ?st)) (min (int (j * ?st) + sz) (int ?n)) =
                 take (nat sz) (drop (j * ?st) words)"
      using assms True by (intro py_slice_window) simp_all
    have "chunk_loop words sz overlap (int (j * ?st)) chunks =
          chunk_loop words sz overlap (int (Suc j * ?st)) (chunks @ [?w j])"
      using True by (subst chunk_loop.simps) (simp only: Let_def slice next_start of_nat_less_iff if_True)
    also have "\<dots> = Some ((chunks @ [?w j]) @ map ?w [Suc j..<?m])"
      using True st by (intro less.hyps) simp
    also have "(chunks @ [?w j]) @ map ?w [Suc j..<?m] = chunks @ map ?w [j..<?m]"
      using jm by (simp add: upt_conv_Cons)
    finally show ?thesis .
  next
    case False
    have "?m \<le> j" using st False by (rule window_count_le)
    then have "[j..<?m] = []" by simp
    moreover have "chunk_loop words sz overlap (int (j * ?st)) chunks = Some chunks"
      using False by (subst chunk_loop.simps) (simp only: of_nat_less_iff if_False)
    ultimately show ?thesis by simp
  qed
qed


lemma window_count_facts:
  assumes "0 < (st::nat)" and "0 < (n::nat)"
  shows "0 < (n + st - 1) div st \<and> ((n + st - 1) div st - 1) * st < n \<and> n \<le> (n + st - 1) div st * st"
proof -
  let ?m = "(n + st - 1) div st"
  have pos: "0 < ?m" using window_count_gt [of st 0 n] assms by simp
  have "\<not> ?m * st < n" using window_count_gt [of st ?m n] assms(1) by auto
  moreover have "(?m - 1) * st < n"
  proof (rule ccontr)
    assume "\<not> (?m - 1) * st < n"
    with assms(1) have "?m \<le> ?m - 1" by (rule window_count_le)
    with pos show False by simp
  qed
  ultimately show ?thesis using pos by simp
qed

lemma pred_mult: "0 < (m::nat) \<Longrightarrow> (m - 1) * st + st = m * st"
  by (cases m) simp_all

lemma last_window:
  fixes ws :: "'a list" and f :: "'a list \<Rightarrow> 'b"
  assumes "0 < (st::nat)" and "st \<le> z" and "ws \<noteq> []"
  shows "map (\<lambda>i. f (take z (drop (i * st) ws))) [0..<(length ws + st - 1) div st] \<noteq> [] \<and>
    ((length ws + st - 1) div st - 1) * st < length ws \<and>
    length ws \<le> ((length ws + st - 1) div st - 1) * st + st \<and>
    last (map (\<lambda>i. f (take z (drop (i * st) ws))) [0..<(length ws + st - 1) div st]) =
      f (drop (((length ws + st - 1) div st - 1) * st) ws) \<and>
    length (drop (((length ws + st - 1) div st - 1) * st) ws) \<le> z"
proof -
  define n where "n = length ws"
  define m where "m = (n + st - 1) div st"
  define k where "k = (m - 1) * st"
  have n: "0 < n" using assms(3) by (simp add: n_def)
  have m: "0 < m" "(m - 1) * st < n" "n \<le> m * st"
    using window_count_facts [OF assms(1) n] by (simp_all add: m_def)
  have le: "n \<le> k + st" using m(3) pred_mult [OF m(1), of st] by (simp add: k_def)
  have short: "length (drop k ws) \<le> z" using le assms(2) by (simp add: n_def)
  have "[0..<m] \<noteq> []" using m(1) by simp
  then have "last (map (\<lambda>i. f (take z (drop (i * st) ws))) [0..<m]) =
        f (take z (drop (last [0..<m] * st) ws))"
    by (rule last_map)
  also have "last [0..<m] = m - 1" using m(1) by (simp add: last_upt)
  also have "take z (drop ((m - 1) * st) ws) = drop k ws"
    using short by (simp add: k_def)
  finally have lst: "last (map (\<lambda>i. f (take z (drop (i * st) ws))) [0..<m]) = f (drop k ws)" .
  have ne: "map (\<lambda>i. f (take z (drop (i * st) ws))) [0..<m] \<noteq> []" using m(1) by simp
  have "k < n" using m(2) by (simp add: k_def)
  with ne le lst short show ?thesis
    unfolding k_def m_def n_def by blast
qed

lemma str_split_single: "str_split ''a'' = [''a'']"
  by (simp add: str_split_def is_space_def)

lemma str_split_blank: "str_split '' '' = []"
  by (simp add: str_split_def is_space_def)

section \<open>Claims about the chunker\<close>

text \<open>
  C6 (amended). The chunker returns for every input with \<open>overlap < size\<close>: each
  iteration moves \<open>start\<close> forward by \<open>size - overlap > 0\<close>. The source makes no
  check of the precondition and raises no configuration error: with
  \<open>overlap \<ge> size\<close> and at least one word in the text the loop never returns, and on
  a text without words the function returns the empty list whatever the parameters.
\<close>

theorem chunk_text_termination:
  "(overlap < sz \<longrightarrow> (\<exists>cs. chunk_text s sz overlap = Some cs)) \<and>
   (sz \<le> overlap \<and> str_split s \<noteq> [] \<longrightarrow> chunk_text s sz overlap = None) \<and>
   (str_split s = [] \<longrightarrow> chunk_text s sz overlap = Some [])"
proof (intro conjI impI)
  assume "overlap < sz"
  then show "\<exists>cs. chunk_text s sz overlap = Some cs"
    using chunk_loop_terminates [of overlap sz "str_split s" 0 "[]"]
    by (simp add: chunk_text_def Let_def)
next
  assume a: "sz \<le> overlap \<and> str_split s \<noteq> []"
  then have "chunk_loop (str_split s) sz overlap 0 [] = None"
    by (intro chunk_loop_diverges) simp_all
  with a show "chunk_text s sz overlap = None"
    by (simp add: chunk_text_def Let_def)
next
  assume "str_split s = []"
  then show "chunk_text s sz overlap = Some []"
    by (simp add: chunk_text_def)
qed

theorem chunk_text_termination_witness:
  "(1::int) < 2 \<and> (\<exists>cs. chunk_text ''a'' 2 1 = Some cs) \<and>
   (1::int) \<le> 1 \<and> str_split ''a'' \<noteq> [] \<and> chunk_text ''a'' 1 1 = None \<and>
   str_split '' '' = [] \<and> chunk_text '' '' 1 1 = Some []"
  using chunk_text_termination [of 1 2 "''a''"] chunk_text_termination [of 1 1 "''a''"]
    chunk_text_termination [of 1 1 "'' ''"]
  by (simp add: str_split_single str_split_blank)

text \<open>
  C6 as stated fails: with \<open>size = overlap = 1\<close> and the one-word text \<open>a\<close> the
  call does not return, and no error is raised.
\<close>

theorem chunk_text_equal_overlap_counterexample:
  "chunk_text ''a'' 1 1 = None"
  by (simp add: chunk_text_def str_split_single chunk_loop_diverges)

text \<open>
  C5. A text of 500 words chunked with \<open>size = 300\<close> and \<open>overlap = 50\<close> gives
  exactly two chunks: the first is the first 300 words joined by single spaces, the
  second is the words 251 to 500 (250 words), and splitting either chunk gives those
  words back. In general, for \<open>0 \<le> overlap < size\<close>, the result is the list of all
  windows: window \<open>i\<close> holds the at most \<open>size\<close> words from position
  \<open>i * (size - overlap)\<close> on, for every \<open>i\<close> whose start position lies inside the
  word list. So on a text with at least one word the last chunk starts at the last
  such position, runs to the end of the word list, may be shorter than \<open>size\<close>, and
  is not dropped.
\<close>

theorem chunk_text_500_words:
  "(length (str_split s) = 500 \<longrightarrow>
      chunk_text s 300 50 = Some [str_join '' '' (take 300 (str_split s)),
                                  str_join '' '' (drop 250 (str_split s))] \<and>
      str_split (str_join '' '' (take 300 (str_split s))) = take 300 (str_split s) \<and>
      str_split (str_join '' '' (drop 250 (str_split s))) = drop 250 (str_split s) \<and>
      length (take 300 (str_split s)) = 300 \<and> length (drop 250 (str_split s)) = 250) \<and>
   (0 \<le> overlap \<and> overlap < sz \<longrightarrow>
      chunk_text s sz overlap =
        Some (map (\<lambda>i. str_join '' '' (take (nat sz) (drop (i * nat (sz - overlap)) (str_split s))))
                  [0..<(length (str_split s) + nat (sz - overlap) - 1) div nat (sz - overlap)])) \<and>
   (0 \<le> overlap \<and> overlap < sz \<and> str_split s \<noteq> [] \<longrightarrow>
      (\<exists>cs k. chunk_text s sz overlap = Some cs \<and> cs \<noteq> [] \<and>
         length cs = (length (str_split s) + nat (sz - overlap) - 1) div nat (sz - overlap) \<and>
         k = (length cs - 1) * nat (sz - overlap) \<and> k < length (str_split s) \<and>
         length (str_split s) \<le> k + nat (sz - overlap) \<and>
         last cs = str_join '' '' (drop k (str_split s)) \<and>
         int (length (drop k (str_split s))) \<le> sz))"
proof -
  let ?ws = "str_split s"
  let ?st = "nat (sz - overlap)"
  let ?m = "(length ?ws + ?st - 1) div ?st"
  let ?w = "\<lambda>i. str_join '' '' (take (nat sz) (drop (i * ?st) ?ws))"
  have first: "length ?ws = 500 \<longrightarrow>
      chunk_text s 300 50 = Some [str_join '' '' (take 300 ?ws), str_join '' '' (drop 250 ?ws)] \<and>
      str_split (str_join '' '' (take 300 ?ws)) = take 300 ?ws \<and>
      str_split (str_join '' '' (drop 250 ?ws)) = drop 250 ?ws \<and>
      length (take 300 ?ws) = 300 \<and> length (drop 250 ?ws) = 250"
  proof
    assume len: "length ?ws = 500"
    then have "?ws \<noteq> []" by auto
    then have "chunk_text s 300 50 = Some [str_join '' '' (take 300 ?ws), str_join '' '' (drop 250 ?ws)]"
      using chunk_loop_500 [OF len] by (simp add: chunk_text_def Let_def)
    moreover have "str_split (str_join '' '' (take 300 ?ws)) = take 300 ?ws"
      by (rule str_split_join_sublist [of _ s]) (rule set_take_subset)
    moreover have "str_split (str_join '' '' (drop 250 ?ws)) = drop 250 ?ws"
      by (rule str_split_join_sublist [of _ s]) (rule set_drop_subset)
    ultimately show "chunk_text s 300 50 = Some [str_join '' '' (take 300 ?ws), str_join '' '' (drop 250 ?ws)] \<and>
      str_split (str_join '' '' (take 300 ?ws)) = take 300 ?ws \<and>
      str_split (str_join '' '' (drop 250 ?ws)) = drop 250 ?ws \<and>
      length (take 300 ?ws) = 300 \<and> length (drop 250 ?ws) = 250"
      using len by simp
  qed
  have closed: "chunk_text s sz overlap = Some (map ?w [0..<?m])"
    if a: "0 \<le> overlap \<and> overlap < sz"
  proof (cases "?ws = []")
    case True
    then show ?thesis using a by (simp add: chunk_text_def)
  next
    case False
    have "chunk_loop ?ws sz overlap (int (0 * ?st)) [] = Some ([] @ map ?w [0..<?m])"
      using a by (intro chunk_loop_windows) simp_all
    then show ?thesis using False by (simp add: chunk_text_def Let_def)
  qed
  have final: "\<exists>cs k. chunk_text s sz overlap = Some cs \<and> cs \<noteq> [] \<and> length cs = ?m \<and>
         k = (length cs - 1) * ?st \<and> k < length ?ws \<and> length ?ws \<le> k + ?st \<and>
         last cs = str_join '' '' (drop k ?ws) \<and> int (length (drop k ?ws)) \<le> sz"
    if a: "0 \<le> overlap \<and> overlap < sz \<and> ?ws \<noteq> []"
  proof -
    have st: "0 < ?st" "?st \<le> nat sz" using a by linarith+
    have ws: "?ws \<noteq> []" using a by blast
    note lw = last_window [OF st ws, of "str_join '' ''"]
    have c: "chunk_text s sz overlap = Some (map ?w [0..<?m])" using a by (intro closed) blast
    have len: "length (map ?w [0..<?m]) = ?m" by (simp only: length_map length_upt diff_zero)
    have "int (length (drop ((?m - 1) * ?st) ?ws)) \<le> sz"
      using lw [THEN conjunct2, THEN conjunct2, THEN conjunct2, THEN conjunct2] a by linarith
    with lw c len show ?thesis
      by (intro exI [of _ "map ?w [0..<?m]"] exI [of _ "(?m - 1) * ?st"]) (simp only: simp_thms)
  qed
  show ?thesis
    by (rule conjI [OF first conjI [OF impI [OF closed] impI [OF final]]])
qed

theorem chunk_text_500_words_witness:
  "length (str_split (concat (replicate 500 ''w ''))) = 500 \<and>
   chunk_text (concat (replicate 500 ''w '')) 300 50 =
     Some [str_join '' '' (replicate 300 ''w''), str_join '' '' (replicate 250 ''w'')] \<and>
   (0::int) \<le> 1 \<and> (1::int) < 2 \<and> str_split ''a b c'' \<noteq> [] \<and>
   chunk_text ''a b c'' 2 1 = Some [''a b'', ''b c'', ''c''] \<and>
   (\<exists>cs k. chunk_text ''a b c'' 2 1 = Some cs \<and> cs \<noteq> [] \<and> length cs = 3 \<and> k = 2 \<and>
      last cs = str_join '' '' (drop k [''a'', ''b'', ''c'']))"
proof -
  have h1: "length (str_split (concat (replicate 500 ''w ''))) = 500"
    by (simp only: str_split_replicate length_replicate)
  have h2: "(0::int) \<le> 1 \<and> (1::int) < 2 \<and> str_split ''a b c'' \<noteq> []"
    by (simp add: str_split_abc)
  have up: "[0..<3] = [0, 1, 2]" by code_simp
  have "chunk_text (concat (replicate 500 ''w '')) 300 50 =
     Some [str_join '' '' (replicate 300 ''w''), str_join '' '' (replicate 250 ''w'')]"
    using chunk_text_500_words [of "concat (replicate 500 ''w '')"] h1
    by (simp add: str_split_replicate)
  moreover have c: "chunk_text ''a b c'' 2 1 = Some [''a b'', ''b c'', ''c'']"
    using chunk_text_500_words [of "''a b c''" 1 2] h2
    by (simp add: str_split_abc up)
  moreover have "\<exists>cs k. chunk_text ''a b c'' 2 1 = Some cs \<and> cs \<noteq> [] \<and> length cs = 3 \<and> k = 2 \<and>
      last cs = str_join '' '' (drop k [''a'', ''b'', ''c''])"
    unfolding c by simp
  ultimately show ?thesis using h1 h2 by blast
qed

section \<open>Properties of the Local Flat Index\<close>

lemma str_nat_0: "str_nat 0 = ''0''"
  by (subst str_nat.simps) (simp add: digit_char_def)

lemma str_nat_1: "str_nat (Suc 0) = ''1''"
  by (subst str_nat.simps) (simp add: digit_char_def)


lemma renorm_L2_unit1: "renorm_L2 [1, 0] = [1, 0]"
  by (simp add: renorm_L2_def)

lemma renorm_L2_unit2: "renorm_L2 [0, 1] = [0, 1]"
  by (simp add: renorm_L2_def)







lemma example_state:
  "upsert (fresh_client ''policy-index'' 2) no_files [(''0'', [1, 0], ''first'')] =
     (Inr (), example_client, example_files)"
  by (simp add: upsert_def np_array_def normalize_L2_def index_add_def fresh_client_def
      IndexFlatIP_def ntotal_def str_nat_0 renorm_L2_unit1 no_files_def example_client_def Let_def
      example_files_def)




lemma str_int_nat: "str_int (int i) = str_nat i"
  by (simp add: str_int_def)


lemma format_matches_closed:
  "format_matches c inc row =
    map (\<lambda>p. \<lparr>match_id = (case id_mapping c (str_int (snd p)) of
                                None \<Rightarrow> str_int (snd p) | Some v \<Rightarrow> v),
               match_score = fst p,
               match_metadata =
                 (if inc then metadata c (case id_mapping c (str_int (snd p)) of
                                            None \<Rightarrow> str_int (snd p) | Some v \<Rightarrow> v)
                  else None)\<rparr>)
        (takeWhile (\<lambda>p. snd p \<noteq> - 1) row)"
proof (induction row)
  case Nil
  show ?case by simp
next
  case (Cons p row)
  obtain score idx where p: "p = (score, idx)" by (cases p)
  show ?case
  proof (cases "idx = - 1")
    case True
    then show ?thesis by (simp add: p)
  next
    case False
    then show ?thesis using Cons.IH by (simp add: p Let_def cong: option.case_cong)
  qed
qed


lemma query_returns:
  assumes "0 < ntotal (index c)" and "length e = d (index c)" and "0 < top_k"
  shows "query knn c e top_k inc =
    Inr (format_matches c inc
          (knn (index c) (nat (min top_k (int (ntotal (index c))))) (renorm_L2 e)))"
  using assms by (simp add: query_def np_array_def normalize_L2_def index_search_def)



lemma flat_search_single: "flat_search \<lparr>d = 2, xb = [[1, 0]]\<rparr> (Suc 0) [1, 0] = [(1, 0)]"
  by (simp add: flat_search_def ntotal_def inner_product_def)

lemma flat_search_two:
  "flat_search \<lparr>d = 2, xb = [[1, 0], [0, 1]]\<rparr> 2 [1, 0] = [(1, 0), (0, 1)]"
  by (simp add: flat_search_def ntotal_def inner_product_def upt_rec numeral_2_eq_2)

lemma upsert_one_succeeds:
  assumes "length v = d (index c)"
  shows "upsert c files [(i, v, m)] =
     (Inr (),
      c\<lparr>metadata := (metadata c)(i \<mapsto> m),
        id_mapping := (id_mapping c)(str_nat (ntotal (index c)) \<mapsto> i),
        index := (index c)\<lparr>xb := xb (index c) @ [renorm_L2 v]\<rparr>\<rparr>,
      files\<lparr>faiss_files := (faiss_files files)
               (index_file c \<mapsto> Inr ((index c)\<lparr>xb := xb (index c) @ [renorm_L2 v]\<rparr>)),
            metadata_files := (metadata_files files)
               (metadata_file c \<mapsto> Inr ((metadata c)(i \<mapsto> m))),
            id_mapping_files := (id_mapping_files files)
               (id_mapping_file c \<mapsto> Inr ((id_mapping c)(str_nat (ntotal (index c)) \<mapsto> i)))\<rparr>)"
  using assms
  by (simp add: upsert_def Let_def np_array_def normalize_L2_def index_add_def)

section \<open>Claims about the Local Flat Index\<close>






text \<open>
  C10. On a non-empty index, an embedding of the index dimension and \<open>top_k > 0\<close>,
  the query does not fail: it returns one match for every position that the search
  returns before the first label \<open>-1\<close>, in that order. The id of the match is the
  entry of the position-to-id mapping under the decimal string of the position and,
  when the mapping has no such entry, that decimal string itself; the metadata is
  the entry of the metadata mapping under this id when metadata is asked for, and
  is absent when there is no such entry.
\<close>

theorem query_id_fallback:
  "0 < ntotal (index c) \<Longrightarrow> length e = d (index c) \<Longrightarrow> 0 < top_k \<Longrightarrow>
   query knn c e top_k inc =
     Inr (map (\<lambda>p. \<lparr>match_id = (case id_mapping c (str_int (snd p)) of
                                      None \<Rightarrow> str_int (snd p) | Some v \<Rightarrow> v),
                     match_score = fst p,
                     match_metadata =
                       (if inc then metadata c (case id_mapping c (str_int (snd p)) of
                                                  None \<Rightarrow> str_int (snd p) | Some v \<Rightarrow> v)
                        else None)\<rparr>)
            (takeWhile (\<lambda>p. snd p \<noteq> - 1)
               (knn (index c) (nat (min top_k (int (ntotal (index c))))) (renorm_L2 e))))"
proof -
  assume a: "0 < ntotal (index c)" "length e = d (index c)" "0 < top_k"
  have "query knn c e top_k inc =
    Inr (format_matches c inc
          (knn (index c) (nat (min top_k (int (ntotal (index c))))) (renorm_L2 e)))"
    using a by (rule query_returns)
  then show ?thesis by (simp only: format_matches_closed)
qed

theorem query_id_fallback_witness:
  "0 < ntotal (index (example_client\<lparr>metadata := Map.empty, id_mapping := Map.empty\<rparr>)) \<and>
   length [1, 0 :: real] = d (index (example_client\<lparr>metadata := Map.empty, id_mapping := Map.empty\<rparr>)) \<and>
   (0::int) < 5 \<and>
   query flat_search (example_client\<lparr>metadata := Map.empty, id_mapping := Map.empty\<rparr>) [1, 0] 5 True =
     Inr [\<lparr>match_id = ''0'', match_score = 1, match_metadata = None\<rparr>]"
  using query_id_fallback [of "example_client\<lparr>metadata := Map.empty, id_mapping := Map.empty\<rparr>"
      "[1, 0]" 5 flat_search True]
  by (simp add: example_client_def ntotal_def renorm_L2_unit1 flat_search_single str_int_def
      str_nat_0)




text \<open>
  C2, what the Local Flat Index does instead. Upserting one record of the index
  dimension whose id \<open>i\<close> is already the id of a stored position \<open>p\<close> succeeds and
  appends: the index holds one vector more, the vector at \<open>p\<close> is the old one, the
  new vector is at the new last position, and both positions carry the id \<open>i\<close>, so
  that a search returning both positions gives two matches with the same id. Only
  the metadata under \<open>i\<close> is overwritten.
\<close>

theorem upsert_existing_id_appends:
  "length v = d (index c) \<Longrightarrow> p < ntotal (index c) \<Longrightarrow> id_mapping c (str_nat p) = Some i \<Longrightarrow>
   upsert c files [(i, v, m)] =
     (Inr (),
      c\<lparr>metadata := (metadata c)(i \<mapsto> m),
        id_mapping := (id_mapping c)(str_nat (ntotal (index c)) \<mapsto> i),
        index := (index c)\<lparr>xb := xb (index c) @ [renorm_L2 v]\<rparr>\<rparr>,
      files\<lparr>faiss_files := (faiss_files files)
               (index_file c \<mapsto> Inr ((index c)\<lparr>xb := xb (index c) @ [renorm_L2 v]\<rparr>)),
            metadata_files := (metadata_files files)
               (metadata_file c \<mapsto> Inr ((metadata c)(i \<mapsto> m))),
            id_mapping_files := (id_mapping_files files)
               (id_mapping_file c \<mapsto> Inr ((id_mapping c)(str_nat (ntotal (index c)) \<mapsto> i)))\<rparr>) \<and>
   ntotal (index (fst (snd (upsert c files [(i, v, m)])))) = ntotal (index c) + 1 \<and>
   xb (index (fst (snd (upsert c files [(i, v, m)])))) ! p = xb (index c) ! p \<and>
   xb (index (fst (snd (upsert c files [(i, v, m)])))) ! ntotal (index c) = renorm_L2 v \<and>
   id_mapping (fst (snd (upsert c files [(i, v, m)]))) (str_nat p) = Some i \<and>
   id_mapping (fst (snd (upsert c files [(i, v, m)]))) (str_nat (ntotal (index c))) = Some i \<and>
   map match_id
     (format_matches (fst (snd (upsert c files [(i, v, m)]))) inc
        [(s1, int p), (s2, int (ntotal (index c)))]) = [i, i]"
proof -
  assume a: "length v = d (index c)" "p < ntotal (index c)" "id_mapping c (str_nat p) = Some i"
  note u = upsert_one_succeeds [OF a(1), of files i m]
  have "xb (index c) ! p = (xb (index c) @ [renorm_L2 v]) ! p"
    using a(2) by (simp add: ntotal_def nth_append)
  moreover have "(xb (index c) @ [renorm_L2 v]) ! ntotal (index c) = renorm_L2 v"
    by (simp add: ntotal_def)
  ultimately show ?thesis
    using a(2,3) by (simp add: u ntotal_def str_int_nat Let_def)
qed

theorem upsert_existing_id_appends_witness:
  "length [0, 1 :: real] = d (index example_client) \<and> 0 < ntotal (index example_client) \<and>
   id_mapping example_client (str_nat 0) = Some ''0'' \<and>
   fst (upsert example_client example_files [(''0'', [0, 1], ''second'')]) = Inr () \<and>
   index (fst (snd (upsert example_client example_files [(''0'', [0, 1], ''second'')]))) =
     \<lparr>d = 2, xb = [[1, 0], [0, 1]]\<rparr> \<and>
   id_mapping (fst (snd (upsert example_client example_files [(''0'', [0, 1], ''second'')]))) =
     [''0'' \<mapsto> ''0'', ''1'' \<mapsto> ''0''] \<and>
   query flat_search (fst (snd (upsert example_client example_files [(''0'', [0, 1], ''second'')])))
     [1, 0] 2 True =
     Inr [\<lparr>match_id = ''0'', match_score = 1, match_metadata = Some ''second''\<rparr>,
          \<lparr>match_id = ''0'', match_score = 0, match_metadata = Some ''second''\<rparr>]"
proof -
  have h: "length [0, 1 :: real] = d (index example_client)" "0 < ntotal (index example_client)"
    "id_mapping example_client (str_nat 0) = Some ''0''"
    by (simp_all add: example_client_def ntotal_def str_nat_0)
  note u = upsert_existing_id_appends [OF h, of example_files "''second''" True 1 0, THEN conjunct1]
  have q: "query flat_search
      (example_client\<lparr>metadata := [''0'' \<mapsto> ''second''], id_mapping := [''0'' \<mapsto> ''0'', ''1'' \<mapsto> ''0''],
         index := \<lparr>d = 2, xb = [[1, 0], [0, 1]]\<rparr>\<rparr>) [1, 0] 2 True =
     Inr [\<lparr>match_id = ''0'', match_score = 1, match_metadata = Some ''second''\<rparr>,
          \<lparr>match_id = ''0'', match_score = 0, match_metadata = Some ''second''\<rparr>]"
    by (simp add: query_returns example_client_def ntotal_def renorm_L2_unit1 flat_search_two
        str_int_def str_nat_0 str_nat_1 Let_def)
  show ?thesis
    unfolding u using h q
    by (simp add: example_client_def ntotal_def renorm_L2_unit2 str_nat_1)
qed

section \<open>Claims about the Managed Index and the factory\<close>

text \<open>
  C3, what the code does. When the library of the Managed Index is present, the key
  is set, the service lists no index of the given name and its calls succeed, the
  factory returns a Managed Index client after creating the index with the cosine
  metric and the dimension 1536, whatever dimension was passed to the factory.
\<close>

theorem managed_index_created_with_1536:
  "pinecone_available \<Longrightarrow> env ''PINECONE_API_KEY'' = Some key \<Longrightarrow> key \<noteq> [] \<Longrightarrow>
   list_indexes api r = Inr descriptions \<Longrightarrow> name \<notin> set (map pc_name descriptions) \<Longrightarrow>
   create_index api r
     \<lparr>pc_name = name, pc_dimension = 1536, pc_metric = ''cosine'',
      pc_cloud = ''aws'', pc_region = ''us-west-2''\<rparr> = Inr r1 \<Longrightarrow>
   open_index api r1 name = Inr () \<Longrightarrow>
   create_vector_client api env files pinecone_available faiss_available r name dimn =
     (Inr (Managed \<lparr>pc_api_key = key, pc_index_name = name\<rparr>), r1)"
  by (simp add: create_vector_client_def PineconeClient_init_def py_or_def truthy_def Let_def)

theorem managed_index_created_with_1536_witness:
  "True \<and> [''PINECONE_API_KEY'' \<mapsto> ''k''] ''PINECONE_API_KEY'' = Some ''k'' \<and> ''k'' \<noteq> [] \<and>
   list_indexes (registry_service :: (index_description list, string, real) pinecone_api) [] = Inr [] \<and>
   ''policy-index'' \<notin> set (map pc_name []) \<and>
   create_index (registry_service :: (index_description list, string, real) pinecone_api) []
     \<lparr>pc_name = ''policy-index'', pc_dimension = 1536, pc_metric = ''cosine'',
      pc_cloud = ''aws'', pc_region = ''us-west-2''\<rparr> =
     Inr [\<lparr>pc_name = ''policy-index'', pc_dimension = 1536, pc_metric = ''cosine'',
           pc_cloud = ''aws'', pc_region = ''us-west-2''\<rparr>] \<and>
   open_index (registry_service :: (index_description list, string, real) pinecone_api)
     [\<lparr>pc_name = ''policy-index'', pc_dimension = 1536, pc_metric = ''cosine'',
       pc_cloud = ''aws'', pc_region = ''us-west-2''\<rparr>] ''policy-index'' = Inr () \<and>
   create_vector_client (registry_service :: (index_description list, string, real) pinecone_api)
     [''PINECONE_API_KEY'' \<mapsto> ''k''] no_files True True [] ''policy-index'' 768 =
     (Inr (Managed \<lparr>pc_api_key = ''k'', pc_index_name = ''policy-index''\<rparr>),
      [\<lparr>pc_name = ''policy-index'', pc_dimension = 1536, pc_metric = ''cosine'',
        pc_cloud = ''aws'', pc_region = ''us-west-2''\<rparr>])"
  using managed_index_created_with_1536 [of True "[''PINECONE_API_KEY'' \<mapsto> ''k'']" "''k''"
      "registry_service :: (index_description list, string, real) pinecone_api" "[]" "[]"
      "''policy-index''"
      "[\<lparr>pc_name = ''policy-index'', pc_dimension = 1536, pc_metric = ''cosine'',
         pc_cloud = ''aws'', pc_region = ''us-west-2''\<rparr>]" no_files True 768]
  by (simp add: registry_service_def)

section \<open>Claims about the embedding gateway\<close>




lemma get_embedding_openai_isl:
  assumes "openai_client env = Some create" and "isl (get_embedding env t ''openai'')"
  shows "\<forall>v rest. create (Single t) \<noteq> Inr (v # rest)"
  using assms by (auto simp: get_embedding_def)





section \<open>Claims about the request handler\<close>

lemma split_acc_nonempty:
  "cur \<noteq> [] \<or> (\<exists>c \<in> set s. \<not> is_space c) \<Longrightarrow> split_acc s cur \<noteq> []"
proof (induction s arbitrary: cur)
  case Nil
  then show ?case by simp
next
  case (Cons c cs)
  show ?case
  proof (cases "is_space c")
    case True
    show ?thesis
    proof (cases "cur = []")
      case True
      with \<open>is_space c\<close> Cons.prems have "\<exists>c \<in> set cs. \<not> is_space c" by auto
      then have "split_acc cs [] \<noteq> []" by (intro Cons.IH) simp
      with True \<open>is_space c\<close> show ?thesis by simp
    next
      case False
      with \<open>is_space c\<close> show ?thesis by simp
    qed
  next
    case False
    have "split_acc cs (cur @ [c]) \<noteq> []" by (intro Cons.IH) simp
    with False show ?thesis by simp
  qed
qed

lemma str_strip_split:
  assumes "str_strip s \<noteq> []"
  shows "str_split s \<noteq> []"
proof -
  have "dropWhile is_space s \<noteq> []"
  proof
    assume "dropWhile is_space s = []"
    then have "str_strip s = []" by (simp only: str_strip_def rev.simps dropWhile.simps)
    with assms show False by simp
  qed
  then have "\<exists>c \<in> set s. \<not> is_space c"
    using dropWhile_eq_Nil_conv [of is_space s] by blast
  then show ?thesis unfolding str_split_def by (intro split_acc_nonempty) simp
qed

lemma chunk_text_default_nonempty:
  assumes "str_split s \<noteq> []"
  shows "\<exists>c cs. chunk_text s 300 50 = Some (c # cs)"
proof -
  let ?ws = "str_split s"
  let ?w = "\<lambda>i. str_join '' '' (take (nat 300) (drop (i * nat (300 - 50)) ?ws))"
  let ?m = "(length ?ws + nat (300 - 50) - 1) div nat (300 - 50)"
  have "chunk_loop ?ws 300 50 (int (0 * nat (300 - 50))) [] = Some ([] @ map ?w [0..<?m])"
    by (intro chunk_loop_windows) simp_all
  then have c: "chunk_text s 300 50 = Some (map ?w [0..<?m])"
    using assms by (simp add: chunk_text_def Let_def)
  have "0 < ?m" using window_count_facts [of "nat (300 - 50)" "length ?ws"] assms by simp
  then have "map ?w [0..<?m] \<noteq> []" by simp
  then obtain x xs where "map ?w [0..<?m] = x # xs" by (cases "map ?w [0..<?m]") auto
  with c show ?thesis by (intro exI [of _ x] exI [of _ xs]) (simp only:)
qed

lemma run_query_no_content:
  assumes "str_endswith (str_lower (urlparse_path collab (documents payload))) ''.pdf'' \<or>
           str_endswith (str_lower (urlparse_path collab (documents payload))) ''.docx''"
    and "extract_text collab (documents payload)
           (if str_endswith (str_lower (urlparse_path collab (documents payload))) ''.pdf''
            then ''pdf'' else ''docx'') = Inr text"
    and "str_strip text = []"
  shows "run_query collab env api knn cfg vector_client r files payload =
           Some (Inl (HTTPException 500
                   (''Failed to process request: '' @
                    exc_str collab
                      (HTTPException 422 ''Failed to extract any text from the document.''))),
                 vector_client, r, files)"
  using assms by (simp add: run_query_def process_request_def Let_def)


lemma example_path: "str_endswith (str_lower ''/policy.pdf'') ''.pdf''"
  by (simp add: str_endswith_def str_lower_def char_lower_def)

lemma str_strip_blanks: "str_strip ''   '' = []"
  by (simp add: str_strip_def is_space_def)

lemma str_strip_single: "str_strip ''a'' \<noteq> []"
  by (simp add: str_strip_def is_space_def)

text \<open>
  C9, what the handler does. For a request with a supported extension whose
  extracted text is empty or whitespace-only, the \<open>HTTPException\<close> with the status
  422 that the body raises is caught by the \<^verbatim>\<open>except Exception\<close> clause around the
  body, and the caller gets an \<open>HTTPException\<close> with the status 500; nothing else
  has been done by then. For any other extracted text the chunker, called with its
  defaults, returns at least one chunk, so the second check of the body never
  raises.
\<close>

theorem run_query_no_content_status:
  "str_endswith (str_lower (urlparse_path collab (documents payload))) ''.pdf'' \<or>
   str_endswith (str_lower (urlparse_path collab (documents payload))) ''.docx'' \<Longrightarrow>
   extract_text collab (documents payload)
     (if str_endswith (str_lower (urlparse_path collab (documents payload))) ''.pdf''
      then ''pdf'' else ''docx'') = Inr extracted \<Longrightarrow>
   (str_strip extracted = [] \<longrightarrow>
      run_query collab env api knn cfg vector_client r files payload =
        Some (Inl (HTTPException 500
                (''Failed to process request: '' @
                 exc_str collab
                   (HTTPException 422 ''Failed to extract any text from the document.''))),
              vector_client, r, files)) \<and>
   (str_strip extracted \<noteq> [] \<longrightarrow> (\<exists>c cs. chunk_text extracted 300 50 = Some (c # cs)))"
proof -
  assume a: "str_endswith (str_lower (urlparse_path collab (documents payload))) ''.pdf'' \<or>
             str_endswith (str_lower (urlparse_path collab (documents payload))) ''.docx''"
    and b: "extract_text collab (documents payload)
              (if str_endswith (str_lower (urlparse_path collab (documents payload))) ''.pdf''
               then ''pdf'' else ''docx'') = Inr extracted"
  have first: "str_strip extracted = [] \<longrightarrow>
      run_query collab env api knn cfg vector_client r files payload =
        Some (Inl (HTTPException 500
                (''Failed to process request: '' @
                 exc_str collab
                   (HTTPException 422 ''Failed to extract any text from the document.''))),
              vector_client, r, files)"
  proof
    assume "str_strip extracted = []"
    with a b show "run_query collab env api knn cfg vector_client r files payload =
        Some (Inl (HTTPException 500
                (''Failed to process request: '' @
                 exc_str collab
                   (HTTPException 422 ''Failed to extract any text from the document.''))),
              vector_client, r, files)"
      by (rule run_query_no_content)
  qed
  have second: "str_strip extracted \<noteq> [] \<longrightarrow> (\<exists>c cs. chunk_text extracted 300 50 = Some (c # cs))"
    using chunk_text_default_nonempty [OF str_strip_split] by blast
  show ?thesis by (rule conjI [OF first second])
qed

theorem run_query_no_content_status_witness:
  "str_endswith (str_lower (urlparse_path example_collaborators ''https://host/policy.pdf'')) ''.pdf'' \<and>
   extract_text example_collaborators ''https://host/policy.pdf'' ''pdf'' = Inr ''   '' \<and>
   str_strip ''   '' = [] \<and>
   run_query example_collaborators example_env
     (registry_service :: (index_description list, string \<rightharpoonup> string, real) pinecone_api)
     flat_search default_settings None [] no_files
     \<lparr>documents = ''https://host/policy.pdf'', questions = [''What is covered?'']\<rparr> =
     Some (Inl (HTTPException 500 ''Failed to process request: ''), None, [], no_files) \<and>
   extract_text (example_collaborators\<lparr>extract_text := \<lambda>url doc_type. Inr ''a''\<rparr>)
     ''https://host/policy.pdf'' ''pdf'' = Inr ''a'' \<and>
   str_strip ''a'' \<noteq> [] \<and>
   (\<exists>c cs. chunk_text ''a'' 300 50 = Some (c # cs))"
proof -
  have p: "str_endswith (str_lower (urlparse_path example_collaborators ''https://host/policy.pdf''))
      ''.pdf''"
    "str_endswith (str_lower (urlparse_path
       (example_collaborators\<lparr>extract_text := \<lambda>url doc_type. Inr ''a''\<rparr>)
       ''https://host/policy.pdf'')) ''.pdf''"
    by (simp_all add: example_collaborators_def example_path)
  have e: "extract_text example_collaborators ''https://host/policy.pdf'' ''pdf'' = Inr ''   ''"
    "extract_text (example_collaborators\<lparr>extract_text := \<lambda>url doc_type. Inr ''a''\<rparr>)
       ''https://host/policy.pdf'' ''pdf'' = Inr ''a''"
    "exc_str example_collaborators
       (HTTPException 422 ''Failed to extract any text from the document.'') = []"
    by (simp_all add: example_collaborators_def)
  have r1: "run_query example_collaborators example_env
     (registry_service :: (index_description list, string \<rightharpoonup> string, real) pinecone_api)
     flat_search default_settings None [] no_files
     \<lparr>documents = ''https://host/policy.pdf'', questions = [''What is covered?'']\<rparr> =
     Some (Inl (HTTPException 500 ''Failed to process request: ''), None, [], no_files)"
    using run_query_no_content_status
      [where collab = example_collaborators
         and payload = "\<lparr>documents = ''https://host/policy.pdf'', questions = [''What is covered?'']\<rparr>"
         and extracted = "''   ''" and env = example_env
         and api = "registry_service :: (index_description list, string \<rightharpoonup> string, real) pinecone_api"
         and knn = flat_search and cfg = default_settings and vector_client = None and r = "[]"
         and files = no_files]
      p(1) e(1,3) str_strip_blanks
    by simp
  have r2: "\<exists>c cs. chunk_text ''a'' 300 50 = Some (c # cs)"
    using run_query_no_content_status
      [where collab = "example_collaborators\<lparr>extract_text := \<lambda>url doc_type. Inr ''a''\<rparr>"
         and payload = "\<lparr>documents = ''https://host/policy.pdf'', questions = [''What is covered?'']\<rparr>"
         and extracted = "''a''" and env = example_env
         and api = "registry_service :: (index_description list, string \<rightharpoonup> string, real) pinecone_api"
         and knn = flat_search and cfg = default_settings and vector_client = None and r = "[]"
         and files = no_files]
      p(2) e(2) str_strip_single
    by simp
  from p(1) e(1,2) str_strip_blanks str_strip_single r1 r2 show ?thesis by blast
qed

end
